theory Spec2Isabelle
  imports Main "HOL-Library.Word" "HOL-Library.AList"
begin

section \<open>The HTTP client of libstns-go\<close>

text \<open>
  A shallow embedding of \<^verbatim>\<open>libstns/client.go\<close>: \<^verbatim>\<open>newClient\<close>, \<^verbatim>\<open>tlsConfig\<close>,
  \<^verbatim>\<open>RequestURL\<close>, \<^verbatim>\<open>Request\<close>, \<^verbatim>\<open>setHeaders\<close> and \<^verbatim>\<open>setBasicAuth\<close>.
  The functions are pure in the model; what they read from the process environment, the file
  system and the network comes from a record of library operations (\<open>world\<close> below), and
  the one object they mutate, the caller's \<^verbatim>\<open>Options\<close>, is passed in and returned.
  Calls of \<^verbatim>\<open>logrus.Errorf\<close> only write a log line and are left out.
\<close>

subsection \<open>Go values\<close>

text \<open>A Go \<^verbatim>\<open>error\<close> value, identified with its message; \<^verbatim>\<open>nil\<close> is \<open>None\<close> of
  \<open>error option\<close>.\<close>

datatype error = Error string

text \<open>A call either returns or ends in a run-time panic (an index out of range).\<close>

datatype 'a outcome = Panics | Returns 'a

datatype x509_Certificate = X509Certificate string

datatype tls_Certificate = TLSCertificate string

text \<open>\<^verbatim>\<open>tls.Config\<close>, the three fields the code sets. \<open>RootCAs = None\<close> is the nil pool,
  for which the TLS library uses the host's root CA set; \<open>Some pool\<close> is a pool made by
  \<^verbatim>\<open>x509.NewCertPool\<close>.\<close>

record tls_Config =
  InsecureSkipVerify :: bool
  RootCAs :: "x509_Certificate list option"
  Certificates :: "tls_Certificate list"

record url_URL =
  Scheme :: string
  Host :: string
  Path :: string
  RawQuery :: string

text \<open>\<^verbatim>\<open>http.Header\<close> is a Go map from names to value lists. It is kept as an association
  list, whose order is the order in which a \<^verbatim>\<open>range\<close> loop visits the map; the keys of a
  Go map are distinct.\<close>

type_synonym http_Header = "(string \<times> string list) list"

record http_Request =
  Method :: string
  URL :: string
  Header :: http_Header

text \<open>\<^verbatim>\<open>http.Response\<close>: \<open>resp_Body\<close> is what \<^verbatim>\<open>ioutil.ReadAll(resp.Body)\<close> gives, the
  bytes of the body or the read error.\<close>

record http_Response =
  resp_StatusCode :: int
  resp_Header :: http_Header
  resp_Body :: "error + string"

text \<open>A connection attempt: \<^verbatim>\<open>net.Dial(network, address)\<close>, with the dialer's timeout in
  nanoseconds when it has one.\<close>

datatype dial = NetDial "int option" string string

datatype proxy = NoProxy | ProxyFromEnvironment | ProxyURL url_URL

record http_Transport =
  Dial :: "string \<Rightarrow> string \<Rightarrow> dial"
  DialContext :: "(string \<Rightarrow> string \<Rightarrow> dial) option"
  DisableKeepAlives :: bool
  TLSClientConfig :: "tls_Config option"
  Proxy :: proxy

record retryablehttp_Client =
  RetryMax :: int

datatype RoundTripper = RetryRoundTripper retryablehttp_Client | PlainTransport http_Transport

record http_Client =
  Transport :: RoundTripper

text \<open>\<^verbatim>\<open>net/http\<close> dials through \<^verbatim>\<open>DialContext\<close> when it is set, and through \<^verbatim>\<open>Dial\<close>
  otherwise.\<close>

definition transport_dial :: "http_Transport \<Rightarrow> string \<Rightarrow> string \<Rightarrow> dial" where
  "transport_dial tr network addr =
     (case DialContext tr of Some f \<Rightarrow> f network addr | None \<Rightarrow> Dial tr network addr)"

subsection \<open>The package's types\<close>

record TLS =
  CA :: string
  Cert :: string
  Key :: string

text \<open>Modelled from the spec: the declaration of \<^verbatim>\<open>Options\<close> is not in the source file;
  these are the fields \<^verbatim>\<open>client.go\<close> reads and writes, with the types it uses them at.
  \<open>HttpHeaders\<close> is a Go map, kept in iteration order like \<open>http_Header\<close>.\<close>

record Options =
  AuthToken :: string
  User :: string
  Password :: string
  UserAgent :: string
  SkipSSLVerify :: bool
  HttpProxy :: string
  RequestTimeout :: int
  RequestRetry :: int
  HttpKeepalive :: bool
  HttpHeaders :: "(string \<times> string) list"
  TLS :: TLS

record client =
  ApiEndpoint :: string
  opt :: Options
  httpClient :: http_Client

record Response =
  StatusCode :: int
  Headers :: "string \<rightharpoonup> string"
  Body :: string

definition version :: string where
  "version = ''0.0.1''"

definition DefaultTimeout :: int where
  "DefaultTimeout = 15"

definition DefaultRetry :: int where
  "DefaultRetry = 3"

subsection \<open>Library operations\<close>

text \<open>
  The operations of other packages that the code calls and whose result depends on the
  environment, the file system or the network, or whose definition is outside this package.
  \<open>env_Parse\<close> fills the fields of the \<^verbatim>\<open>Options\<close> it is given from the environment, in
  place, and may fail; \<open>x509_AppendCertsFromPEM pool data\<close> gives the pool with the
  certificates found in \<open>data\<close> added and the flag that says whether any was found;
  \<open>http_Do\<close> is \<^verbatim>\<open>httpClient.Do\<close>.
\<close>

record world =
  env_Parse :: "Options \<Rightarrow> error option \<times> Options"
  ioutil_ReadFile :: "string \<Rightarrow> error + string"
  x509_AppendCertsFromPEM :: "x509_Certificate list \<Rightarrow> string \<Rightarrow> x509_Certificate list \<times> bool"
  tls_LoadX509KeyPair :: "string \<Rightarrow> string \<Rightarrow> error + tls_Certificate"
  url_Parse :: "string \<Rightarrow> error + url_URL"
  url_String :: "url_URL \<Rightarrow> string"
  path_Join :: "string \<Rightarrow> string \<Rightarrow> string"
  http_NewRequest :: "string \<Rightarrow> string \<Rightarrow> error + http_Request"
  http_CanonicalHeaderKey :: "string \<Rightarrow> string"
  http_basicAuth :: "string \<Rightarrow> string \<Rightarrow> string"
  http_Do :: "http_Client \<Rightarrow> http_Request \<Rightarrow> error + http_Response"

text \<open>\<^verbatim>\<open>strings.Index(s, substr)\<close>: the index of the first occurrence, or \<open>-1\<close>.\<close>

fun strings_Index :: "string \<Rightarrow> string \<Rightarrow> int" where
  "strings_Index s substr =
     (if take (length substr) s = substr then 0
      else case s of
        [] \<Rightarrow> - 1
      | _ # t \<Rightarrow> (let i = strings_Index t substr in if i = - 1 then - 1 else i + 1))"

text \<open>\<^verbatim>\<open>strings.ToLower\<close> on a string of ASCII characters, which the names of HTTP headers
  are: the letters \<open>A\<close> to \<open>Z\<close> become \<open>a\<close> to \<open>z\<close>.\<close>

definition toLower_char :: "char \<Rightarrow> char" where
  "toLower_char c =
     (let n = (of_char c :: nat) in if 65 \<le> n \<and> n \<le> 90 then char_of (n + 32) else c)"

definition strings_ToLower :: "string \<Rightarrow> string" where
  "strings_ToLower s = map toLower_char s"

definition funk_ContainsString :: "string list \<Rightarrow> string \<Rightarrow> bool" where
  "funk_ContainsString s v = (v \<in> set s)"

text \<open>The verb \<^verbatim>\<open>%d\<close> of \<^verbatim>\<open>fmt\<close>: an integer in decimal.\<close>

fun decimal :: "nat \<Rightarrow> string" where
  "decimal n =
     (if n < 10 then [char_of (48 + n)] else decimal (n div 10) @ [char_of (48 + n mod 10)])"

definition fmt_d :: "int \<Rightarrow> string" where
  "fmt_d i = (if i < 0 then CHR ''-'' # decimal (nat (- i)) else decimal (nat i))"

text \<open>\<^verbatim>\<open>time.Duration(n) * time.Second\<close>: a signed 64-bit count of nanoseconds, which
  wraps around.\<close>

definition seconds :: "int \<Rightarrow> int" where
  "seconds n = sint (word_of_int n * 1000000000 :: 64 word)"

text \<open>\<^verbatim>\<open>Header.Add\<close> and \<^verbatim>\<open>Header.Set\<close>, on the canonical form of the name.\<close>

definition Header_Add :: "world \<Rightarrow> http_Header \<Rightarrow> string \<Rightarrow> string \<Rightarrow> http_Header" where
  "Header_Add w hdr k v =
     (let ck = http_CanonicalHeaderKey w k
      in case map_of hdr ck of
           None \<Rightarrow> hdr @ [(ck, [v])]
         | Some vs \<Rightarrow> AList.update ck (vs @ [v]) hdr)"

definition Header_Set :: "world \<Rightarrow> http_Header \<Rightarrow> string \<Rightarrow> string \<Rightarrow> http_Header" where
  "Header_Set w hdr k v = AList.update (http_CanonicalHeaderKey w k) [v] hdr"

definition retryablehttp_StandardClient :: "retryablehttp_Client \<Rightarrow> http_Client" where
  "retryablehttp_StandardClient c = \<lparr>Transport = RetryRoundTripper c\<rparr>"

subsection \<open>tlsConfig\<close>

definition tlsConfig :: "world \<Rightarrow> Options \<Rightarrow> error + tls_Config option" where
  "tlsConfig w opts =
     (let tlsConfig0 = \<lparr>InsecureSkipVerify = SkipSSLVerify opts, RootCAs = None, Certificates = []\<rparr>
      in case (if CA (TLS opts) \<noteq> ''''
               then (case ioutil_ReadFile w (CA (TLS opts)) of
                       Inl err \<Rightarrow> Inl err
                     | Inr severCert \<Rightarrow>
                         (let CA_Pool = fst (x509_AppendCertsFromPEM w [] severCert)
                          in Inr (tlsConfig0\<lparr>RootCAs := Some CA_Pool\<rparr>)))
               else Inr tlsConfig0) of
           Inl err \<Rightarrow> Inl err
         | Inr tlsConfig1 \<Rightarrow>
             (case (if Cert (TLS opts) \<noteq> '''' \<and> Key (TLS opts) \<noteq> ''''
                    then (case tls_LoadX509KeyPair w (Cert (TLS opts)) (Key (TLS opts)) of
                            Inl err \<Rightarrow> Inl err
                          | Inr x509Cert \<Rightarrow> Inr (tlsConfig1\<lparr>Certificates := [x509Cert]\<rparr>))
                    else Inr tlsConfig1) of
                Inl err \<Rightarrow> Inl err
              | Inr tlsConfig2 \<Rightarrow>
                  (if length (Certificates tlsConfig2) = 0 \<and> RootCAs tlsConfig2 = None
                   then Inr None
                   else Inr (Some tlsConfig2))))"

subsection \<open>newClient\<close>

text \<open>Lines 82 to 92: the defaults, written into the \<^verbatim>\<open>Options\<close> that \<^verbatim>\<open>opt\<close> points to.\<close>

definition newClient_defaults :: "Options \<Rightarrow> Options" where
  "newClient_defaults opt1 =
     (let opt2 = (if UserAgent opt1 = ''''
                  then opt1\<lparr>UserAgent := ''libstns-go'' @ ''/'' @ version\<rparr> else opt1);
          opt3 = (if RequestTimeout opt2 = 0
                  then opt2\<lparr>RequestTimeout := DefaultTimeout\<rparr> else opt2)
      in if RequestRetry opt3 = 0 then opt3\<lparr>RequestRetry := DefaultRetry\<rparr> else opt3)"

text \<open>Lines 99 to 133: the transport and the endpoint the client will store, or the error
  with which \<^verbatim>\<open>newClient\<close> returns.\<close>

definition newClient_transport :: "world \<Rightarrow> string \<Rightarrow> Options \<Rightarrow> error + http_Transport \<times> string" where
  "newClient_transport w endpoint opts =
     (let tr = \<lparr>Dial = (\<lambda>network addr.
                         NetDial (Some (seconds (RequestTimeout opts))) network addr),
                DialContext = None,
                DisableKeepAlives = \<not> HttpKeepalive opts,
                TLSClientConfig = None,
                Proxy = NoProxy\<rparr>
      in case (if strings_Index endpoint ''https'' = 0
               then (case tlsConfig w opts of
                       Inl err \<Rightarrow> Inl err
                     | Inr tc \<Rightarrow> Inr (tr\<lparr>TLSClientConfig := tc\<rparr>))
               else Inr tr) of
           Inl err \<Rightarrow> Inl err
         | Inr tr1 \<Rightarrow>
             (case (if strings_Index endpoint ''unix'' = 0
                    then (case url_Parse w endpoint of
                            Inl err \<Rightarrow> Inl err
                          | Inr u \<Rightarrow>
                              Inr (tr1\<lparr>DialContext :=
                                         Some (\<lambda>_ _. NetDial None ''unix'' (Path u))\<rparr>,
                                   ''http://unix''))
                    else Inr (tr1, endpoint)) of
                Inl err \<Rightarrow> Inl err
              | Inr (tr2, endpoint1) \<Rightarrow>
                  (let tr3 = tr2\<lparr>Proxy := ProxyFromEnvironment\<rparr>
                   in if HttpProxy opts \<noteq> ''''
                      then (case url_Parse w (HttpProxy opts) of
                              Inr proxyUrl \<Rightarrow> Inr (tr3\<lparr>Proxy := ProxyURL proxyUrl\<rparr>, endpoint1)
                            | Inl _ \<Rightarrow> Inr (tr3, endpoint1))
                      else Inr (tr3, endpoint1))))"

text \<open>The result is what \<^verbatim>\<open>newClient\<close> returns, paired with the \<^verbatim>\<open>Options\<close> that the
  caller's pointer refers to when the call is over; the pointer is taken to be non-nil. The
  client keeps the same pointer, so its \<open>opt\<close> is that object.\<close>

definition newClient :: "world \<Rightarrow> string \<Rightarrow> Options \<Rightarrow> (error + client) \<times> Options" where
  "newClient w endpoint opt0 =
     (case env_Parse w opt0 of
        (Some err, opt1) \<Rightarrow> (Inl err, opt1)
      | (None, opt1) \<Rightarrow>
          (let opts = newClient_defaults opt1;
               retryclient = \<lparr>RetryMax = RequestRetry opts\<rparr>;
               httpClient0 = retryablehttp_StandardClient retryclient
           in case newClient_transport w endpoint opts of
                Inl err \<Rightarrow> (Inl err, opts)
              | Inr (tr, endpoint1) \<Rightarrow>
                  (Inr \<lparr>ApiEndpoint = endpoint1, opt = opts,
                        httpClient = httpClient0\<lparr>Transport := PlainTransport tr\<rparr>\<rparr>,
                   opts)))"

subsection \<open>Request\<close>

definition RequestURL :: "world \<Rightarrow> client \<Rightarrow> string \<Rightarrow> string \<Rightarrow> error + url_URL" where
  "RequestURL w h requestPath query =
     (case url_Parse w (ApiEndpoint h) of
        Inl err \<Rightarrow> Inl err
      | Inr u \<Rightarrow> Inr (u\<lparr>Path := path_Join w (Path u) requestPath, RawQuery := query\<rparr>))"

definition setHeaders :: "world \<Rightarrow> client \<Rightarrow> http_Request \<Rightarrow> http_Request" where
  "setHeaders w h req =
     (let req1 = fold (\<lambda>(k, v) r. r\<lparr>Header := Header_Add w (Header r) k v\<rparr>)
                      (HttpHeaders (opt h)) req;
          req2 = req1\<lparr>Header := Header_Set w (Header req1) ''User-Agent'' (UserAgent (opt h))\<rparr>
      in if AuthToken (opt h) \<noteq> ''''
         then req2\<lparr>Header := Header_Set w (Header req2) ''Authorization''
                                (''token '' @ AuthToken (opt h))\<rparr>
         else req2)"

definition setBasicAuth :: "world \<Rightarrow> client \<Rightarrow> http_Request \<Rightarrow> http_Request" where
  "setBasicAuth w h req =
     (if User (opt h) \<noteq> '''' \<and> Password (opt h) \<noteq> ''''
      then req\<lparr>Header := Header_Set w (Header req) ''Authorization''
                            (''Basic '' @ http_basicAuth w (User (opt h)) (Password (opt h)))\<rparr>
      else req)"

definition supportHeaders :: "string list" where
  "supportHeaders =
     [''user-highest-id'', ''user-lowest-id'', ''group-highest-id'', ''group-lowest-id'']"

text \<open>The first part of \<^verbatim>\<open>Request\<close>, up to and including \<^verbatim>\<open>h.httpClient.Do(req)\<close>: the
  response that was transported, or the error with which \<^verbatim>\<open>Request\<close> returns early.\<close>

definition Request_send :: "world \<Rightarrow> client \<Rightarrow> string \<Rightarrow> string \<Rightarrow> error + http_Response" where
  "Request_send w h path query =
     (case RequestURL w h path query of
        Inl err \<Rightarrow> Inl err
      | Inr u \<Rightarrow>
          (case http_NewRequest w ''GET'' (url_String w u) of
             Inl err \<Rightarrow> Inl err
           | Inr req \<Rightarrow> http_Do w (httpClient h) (setBasicAuth w h (setHeaders w h req))))"

text \<open>The loop over \<^verbatim>\<open>resp.Header\<close>; \<^verbatim>\<open>v[0]\<close> panics on an empty list of values.\<close>

fun Request_headers :: "http_Header \<Rightarrow> (string \<rightharpoonup> string) \<Rightarrow> (string \<rightharpoonup> string) outcome" where
  "Request_headers [] headers = Returns headers"
| "Request_headers ((k, v) # rest) headers =
     (if funk_ContainsString supportHeaders (strings_ToLower k)
      then (case v of
              [] \<Rightarrow> Panics
            | v0 # _ \<Rightarrow> Request_headers rest (headers(k \<mapsto> v0)))
      else Request_headers rest headers)"

text \<open>\<^verbatim>\<open>Request\<close> returns a pair of a pointer to a \<^verbatim>\<open>Response\<close> (\<open>None\<close> is nil) and an
  error (\<open>None\<close> is nil).\<close>

definition Request :: "world \<Rightarrow> client \<Rightarrow> string \<Rightarrow> string \<Rightarrow> (Response option \<times> error option) outcome" where
  "Request w h path query =
     (case Request_send w h path query of
        Inl err \<Rightarrow> Returns (None, Some err)
      | Inr resp \<Rightarrow>
          (case Request_headers (resp_Header resp) Map.empty of
             Panics \<Rightarrow> Panics
           | Returns headers \<Rightarrow>
               (if resp_StatusCode resp = 200
                then (case resp_Body resp of
                        Inl err \<Rightarrow> Returns (None, Some err)
                      | Inr body \<Rightarrow>
                          Returns (Some \<lparr>StatusCode = resp_StatusCode resp,
                                         Headers = headers, Body = body\<rparr>, None))
                else (case resp_Body resp of
                        Inl err \<Rightarrow> Returns (None, Some err)
                      | Inr body \<Rightarrow>
                          Returns (Some \<lparr>StatusCode = resp_StatusCode resp,
                                         Headers = headers, Body = body\<rparr>,
                                   Some (Error (''status code='' @ fmt_d (resp_StatusCode resp)
                                                @ '', body='' @ body)))))))"

subsection \<open>The claims' words\<close>

text \<open>The allow-list of the header filter as the specification words it: a name passes when
  its lower-cased form is one of the four names.\<close>

definition allow_listed :: "string \<Rightarrow> bool" where
  "allow_listed name =
     (strings_ToLower name \<in>
        {''user-highest-id'', ''user-lowest-id'', ''group-highest-id'', ''group-lowest-id''})"

text \<open>The filtered headers as the specification words them: each allow-listed name of the
  raw headers with the first of its values, and nothing else.\<close>

definition filtered_headers :: "http_Header \<Rightarrow> (string \<rightharpoonup> string)" where
  "filtered_headers hdr name =
     (case map_of hdr name of
        Some (v0 # _) \<Rightarrow> if allow_listed name then Some v0 else None
      | _ \<Rightarrow> None)"

text \<open>The defaults as the specification words them: timeout 15, retry count 3 and the
  user agent \<open>libstns-go/0.0.1\<close>, each where the field is zero-valued.\<close>

definition with_defaults :: "Options \<Rightarrow> Options" where
  "with_defaults opt1 =
     opt1\<lparr>UserAgent := (if UserAgent opt1 = '''' then ''libstns-go/0.0.1'' else UserAgent opt1),
          RequestTimeout := (if RequestTimeout opt1 = 0 then 15 else RequestTimeout opt1),
          RequestRetry := (if RequestRetry opt1 = 0 then 3 else RequestRetry opt1)\<rparr>"

subsection \<open>A concrete world and concrete inputs\<close>

text \<open>The zero value of \<^verbatim>\<open>Options\<close>, which \<^verbatim>\<open>&Options{}\<close> points to.\<close>

definition zero_Options :: Options where
  "zero_Options =
     \<lparr>AuthToken = '''', User = '''', Password = '''', UserAgent = '''', SkipSSLVerify = False,
      HttpProxy = '''', RequestTimeout = 0, RequestRetry = 0, HttpKeepalive = False,
      HttpHeaders = [], TLS = \<lparr>CA = '''', Cert = '''', Key = ''''\<rparr>\<rparr>"

text \<open>A world with an empty environment, three files, two URLs that parse and a server that
  knows one user. The file \<open>/etc/stns/motd\<close> is readable and holds no certificate; the
  body of the response for \<open>users/cut\<close> breaks off while it is read.\<close>

definition example_world :: world where
  "example_world =
     \<lparr>env_Parse = (\<lambda>opts. (None, opts)),
      ioutil_ReadFile = (\<lambda>name.
        if name = ''/etc/stns/ca.pem'' then Inr ''-----BEGIN CERTIFICATE-----''
        else if name = ''/etc/stns/motd'' then Inr ''hello''
        else Inl (Error ''no such file or directory'')),
      x509_AppendCertsFromPEM = (\<lambda>pool data.
        if data = ''-----BEGIN CERTIFICATE-----'' then (pool @ [X509Certificate ''ca''], True)
        else (pool, False)),
      tls_LoadX509KeyPair = (\<lambda>certFile keyFile.
        if certFile = ''/etc/stns/client.crt'' \<and> keyFile = ''/etc/stns/client.key''
        then Inr (TLSCertificate ''client'')
        else Inl (Error ''open: no such file or directory'')),
      url_Parse = (\<lambda>s.
        if s = ''https://directory.example/v1/''
        then Inr \<lparr>Scheme = ''https'', Host = ''directory.example'', Path = ''/v1/'',
                  RawQuery = ''''\<rparr>
        else if s = ''unix:///var/run/stns.sock''
        then Inr \<lparr>Scheme = ''unix'', Host = '''', Path = ''/var/run/stns.sock'',
                  RawQuery = ''''\<rparr>
        else Inl (Error ''parse: invalid URL'')),
      url_String = (\<lambda>u. Scheme u @ ''://'' @ Host u @ Path u),
      path_Join = (\<lambda>a b. a @ b),
      http_NewRequest = (\<lambda>m u. Inr \<lparr>Method = m, URL = u, Header = []\<rparr>),
      http_CanonicalHeaderKey = (\<lambda>k. k),
      http_basicAuth = (\<lambda>u p. u @ '':'' @ p),
      http_Do = (\<lambda>c req.
        if URL req = ''https://directory.example/v1/users/pyama''
        then Inr \<lparr>resp_StatusCode = 200,
                  resp_Header = [(''Content-Type'', [''application/json'']),
                                 (''User-Highest-Id'', [''2000'', ''9'']),
                                 (''Group-Lowest-Id'', [''100''])],
                  resp_Body = Inr ''{id:1001}''\<rparr>
        else if URL req = ''https://directory.example/v1/users/cut''
        then Inr \<lparr>resp_StatusCode = 404, resp_Header = [],
                  resp_Body = Inl (Error ''unexpected EOF'')\<rparr>
        else Inr \<lparr>resp_StatusCode = 404,
                  resp_Header = [(''User-Lowest-Id'', [''1000''])],
                  resp_Body = Inr ''not found''\<rparr>)\<rparr>"

definition opts_skip_verify :: Options where
  "opts_skip_verify = zero_Options\<lparr>SkipSSLVerify := True\<rparr>"

definition opts_lone_cert :: Options where
  "opts_lone_cert =
     zero_Options\<lparr>TLS := \<lparr>CA = '''', Cert = ''/etc/stns/client.crt'', Key = ''''\<rparr>\<rparr>"

definition opts_ca_lone_key :: Options where
  "opts_ca_lone_key =
     zero_Options\<lparr>TLS := \<lparr>CA = ''/etc/stns/ca.pem'', Cert = '''',
                          Key = ''/etc/stns/client.key''\<rparr>\<rparr>"

definition opts_ca_not_pem :: Options where
  "opts_ca_not_pem = zero_Options\<lparr>TLS := \<lparr>CA = ''/etc/stns/motd'', Cert = '''', Key = ''''\<rparr>\<rparr>"

definition opts_ca_missing :: Options where
  "opts_ca_missing = zero_Options\<lparr>TLS := \<lparr>CA = ''/etc/stns/none.pem'', Cert = '''', Key = ''''\<rparr>\<rparr>"

definition opts_mutual_tls :: Options where
  "opts_mutual_tls =
     zero_Options\<lparr>TLS := \<lparr>CA = ''/etc/stns/ca.pem'', Cert = ''/etc/stns/client.crt'',
                          Key = ''/etc/stns/client.key''\<rparr>\<rparr>"

definition opts_custom :: Options where
  "opts_custom = zero_Options\<lparr>UserAgent := ''my-agent'', RequestRetry := 5\<rparr>"

definition example_client :: client where
  "example_client =
     projr (fst (newClient example_world ''https://directory.example/v1/'' zero_Options))"

definition custom_client :: client where
  "custom_client =
     projr (fst (newClient example_world ''https://directory.example/v1/'' opts_custom))"

definition resp_pyama :: http_Response where
  "resp_pyama =
     \<lparr>resp_StatusCode = 200,
      resp_Header = [(''Content-Type'', [''application/json'']),
                     (''User-Highest-Id'', [''2000'', ''9'']),
                     (''Group-Lowest-Id'', [''100''])],
      resp_Body = Inr ''{id:1001}''\<rparr>"



section \<open>Properties\<close>

subsection \<open>Auxiliary facts\<close>

declare strings_Index.simps [simp del]

declare decimal.simps [simp del]

lemmas example_defs = example_world_def zero_Options_def

lemma strings_Index_0: "strings_Index s substr = 0 \<longleftrightarrow> take (length substr) s = substr"
  by (subst strings_Index.simps) (auto split: list.splits simp: Let_def)

lemma unix_not_https:
  "strings_Index endpoint ''unix'' = 0 \<Longrightarrow> strings_Index endpoint ''https'' \<noteq> 0"
  by (cases endpoint) (auto simp: strings_Index_0)

lemma tlsConfig_keeps_flag:
  "tlsConfig w opts = Inr (Some cfg) \<Longrightarrow> InsecureSkipVerify cfg = SkipSSLVerify opts"
  by (auto simp: tlsConfig_def Let_def split: if_splits sum.splits)

lemma contains_allow_listed:
  "funk_ContainsString supportHeaders (strings_ToLower k) = allow_listed k"
  by (simp add: funk_ContainsString_def supportHeaders_def allow_listed_def)

text \<open>What the loop over the response headers returns, when it returns: the entries of
  \<open>filtered_headers\<close> laid over the map it started from.\<close>

lemma Request_headers_returns:
  "Request_headers hdr m = Returns m' \<Longrightarrow> distinct (map fst hdr) \<Longrightarrow>
   m' = m ++ filtered_headers hdr"
proof (induction hdr arbitrary: m)
  case Nil
  then show ?case by (simp add: filtered_headers_def map_add_def fun_eq_iff)
next
  case (Cons p hdr)
  obtain k v where p: "p = (k, v)" by (cases p)
  from Cons.prems(2) p have fresh: "map_of hdr k = None" and d: "distinct (map fst hdr)"
    by (auto simp: map_of_eq_None_iff)
  show ?case
  proof (cases "allow_listed k")
    case False
    with Cons.prems(1) p have "Request_headers hdr m = Returns m'"
      by (simp add: contains_allow_listed)
    from Cons.IH [OF this d] have "m' = m ++ filtered_headers hdr" .
    moreover have "filtered_headers (p # hdr) = filtered_headers hdr"
      using False p fresh by (auto simp: filtered_headers_def fun_eq_iff split: list.splits)
    ultimately show ?thesis by simp
  next
    case True
    with Cons.prems(1) p obtain v0 vs where v: "v = v0 # vs"
      and r: "Request_headers hdr (m(k \<mapsto> v0)) = Returns m'"
      by (cases v) (auto simp: contains_allow_listed)
    from Cons.IH [OF r d] have m': "m' = m(k \<mapsto> v0) ++ filtered_headers hdr" .
    have "filtered_headers hdr k = None"
      using fresh by (simp add: filtered_headers_def)
    then show ?thesis
      unfolding m' using True p v
      by (auto simp: fun_eq_iff map_add_def filtered_headers_def split: option.splits)
  qed
qed



lemma newClient_defaults_eq: "newClient_defaults opt1 = with_defaults opt1"
  by (simp add: newClient_defaults_def with_defaults_def Let_def version_def DefaultTimeout_def
      DefaultRetry_def)

lemma newClient_snd:
  "env_Parse w opt0 = (None, opt1) \<Longrightarrow> snd (newClient w endpoint opt0) = newClient_defaults opt1"
  by (simp add: newClient_def Let_def split: sum.splits prod.splits)

lemma newClient_Inr:
  "fst (newClient w endpoint opt0) = Inr c \<Longrightarrow>
   fst (env_Parse w opt0) = None \<and> opt c = snd (newClient w endpoint opt0)"
  by (cases "env_Parse w opt0")
     (auto simp: newClient_def Let_def split: sum.splits prod.splits option.splits)

text \<open>The transport built for an endpoint that begins with \<open>unix\<close>.\<close>

lemma newClient_transport_unix:
  assumes "strings_Index endpoint ''unix'' = 0"
  shows "newClient_transport w endpoint opts =
           (case url_Parse w endpoint of
              Inl err \<Rightarrow> Inl err
            | Inr u \<Rightarrow>
                Inr (\<lparr>Dial = (\<lambda>network addr.
                               NetDial (Some (seconds (RequestTimeout opts))) network addr),
                      DialContext = Some (\<lambda>_ _. NetDial None ''unix'' (Path u)),
                      DisableKeepAlives = \<not> HttpKeepalive opts,
                      TLSClientConfig = None,
                      Proxy = (if HttpProxy opts \<noteq> ''''
                               then (case url_Parse w (HttpProxy opts) of
                                       Inr proxyUrl \<Rightarrow> ProxyURL proxyUrl
                                     | Inl _ \<Rightarrow> ProxyFromEnvironment)
                               else ProxyFromEnvironment)\<rparr>,
                     ''http://unix''))"
  using assms unix_not_https [OF assms]
  by (simp add: newClient_transport_def Let_def split: sum.splits)

text \<open>The concrete clients and the responses they are sent.\<close>

lemma newClient_example:
  "newClient example_world ''https://directory.example/v1/'' zero_Options =
     (Inr example_client,
      zero_Options\<lparr>UserAgent := ''libstns-go/0.0.1'', RequestTimeout := 15, RequestRetry := 3\<rparr>)"
  by (simp add: example_client_def newClient_def newClient_transport_def newClient_defaults_def
      tlsConfig_def example_defs strings_Index_0 Let_def version_def DefaultTimeout_def
      DefaultRetry_def retryablehttp_StandardClient_def)

lemma example_client_eq:
  "example_client =
     \<lparr>ApiEndpoint = ''https://directory.example/v1/'',
      opt = zero_Options\<lparr>UserAgent := ''libstns-go/0.0.1'', RequestTimeout := 15,
                         RequestRetry := 3\<rparr>,
      httpClient = \<lparr>Transport = PlainTransport
        \<lparr>Dial = (\<lambda>network addr. NetDial (Some (seconds 15)) network addr),
         DialContext = None, DisableKeepAlives = True, TLSClientConfig = None,
         Proxy = ProxyFromEnvironment\<rparr>\<rparr>\<rparr>"
  by (simp add: example_client_def newClient_def newClient_transport_def newClient_defaults_def
      tlsConfig_def example_defs strings_Index_0 Let_def version_def DefaultTimeout_def
      DefaultRetry_def retryablehttp_StandardClient_def)

lemma newClient_custom:
  "newClient example_world ''https://directory.example/v1/'' opts_custom =
     (Inr custom_client,
      zero_Options\<lparr>UserAgent := ''my-agent'', RequestTimeout := 15, RequestRetry := 5\<rparr>)"
  by (simp add: custom_client_def opts_custom_def newClient_def newClient_transport_def
      newClient_defaults_def tlsConfig_def example_defs strings_Index_0 Let_def version_def
      DefaultTimeout_def DefaultRetry_def retryablehttp_StandardClient_def)

lemma send_pyama:
  "Request_send example_world example_client ''users/pyama'' '''' = Inr resp_pyama"
  by (simp add: example_client_eq Request_send_def RequestURL_def setHeaders_def
      setBasicAuth_def Header_Set_def example_defs resp_pyama_def)




lemma lower_examples:
  "strings_ToLower ''User-Lowest-Id'' = ''user-lowest-id''"
  "strings_ToLower ''User-Highest-Id'' = ''user-highest-id''"
  "strings_ToLower ''Group-Lowest-Id'' = ''group-lowest-id''"
  "strings_ToLower ''Content-Type'' = ''content-type''"
  by code_simp+


lemma filtered_pyama:
  "filtered_headers (resp_Header resp_pyama) =
     [''User-Highest-Id'' \<mapsto> ''2000'', ''Group-Lowest-Id'' \<mapsto> ''100'']"
  by (auto simp: filtered_headers_def allow_listed_def lower_examples resp_pyama_def fun_eq_iff)

subsection \<open>tlsConfig\<close>

text \<open>
  Claim C1 says that with \<^verbatim>\<open>SkipSSLVerify\<close> set the configuration that \<^verbatim>\<open>tlsConfig\<close>
  produces always disables the validation of the peer's certificate chain. The code puts the
  flag into the configuration first, and then drops the whole configuration when neither a
  root pool nor a client certificate was loaded: with the flag set and no CA, certificate or
  key path, in whatever world, \<^verbatim>\<open>tlsConfig\<close> returns nil, the transport gets no
  configuration of its own, and validation stays on.
\<close>

theorem tlsConfig_skip_verify_alone_nil:
  "SkipSSLVerify opts_skip_verify \<and> tlsConfig w opts_skip_verify = Inr None"
  by (simp add: tlsConfig_def opts_skip_verify_def zero_Options_def)

text \<open>
  Claim C2 says that a lone certificate path or a lone key path makes client construction
  fail. It does not: with only \<^verbatim>\<open>TLS.Cert\<close> set, \<^verbatim>\<open>tlsConfig\<close> returns nil without an
  error and \<^verbatim>\<open>newClient\<close> for an \<open>https\<close> endpoint returns a client.
\<close>

theorem tlsConfig_lone_cert_no_error:
  "Cert (TLS opts_lone_cert) \<noteq> '''' \<and> Key (TLS opts_lone_cert) = '''' \<and>
   tlsConfig example_world opts_lone_cert = Inr None \<and>
   \<not> isl (fst (newClient example_world ''https://directory.example/v1/'' opts_lone_cert))"
  by (simp add: tlsConfig_def newClient_def newClient_transport_def newClient_defaults_def
      opts_lone_cert_def example_defs strings_Index_0 Let_def version_def DefaultTimeout_def
      DefaultRetry_def retryablehttp_StandardClient_def)

text \<open>
  Claim C2 as amended: when exactly one of the certificate path and the key path is
  non-empty, \<^verbatim>\<open>tlsConfig\<close> ignores it. Its result, error or configuration, is the result
  for the same options with both paths empty, and it is nil when no CA path is set.
\<close>

theorem tlsConfig_lone_cert_or_key_ignored:
  assumes "(Cert (TLS opts) = '''') \<noteq> (Key (TLS opts) = '''')"
  shows "tlsConfig w opts = tlsConfig w (opts\<lparr>TLS := (TLS opts)\<lparr>Cert := '''', Key := ''''\<rparr>\<rparr>) \<and>
         (if CA (TLS opts) = '''' then tlsConfig w opts = Inr None
          else tlsConfig w opts \<noteq> Inr None)"
  using assms
  by (auto simp: tlsConfig_def Let_def cong: if_cong sum.case_cong split: sum.splits)

theorem tlsConfig_lone_cert_or_key_ignored_witness:
  "(Cert (TLS opts_ca_lone_key) = '''') \<noteq> (Key (TLS opts_ca_lone_key) = '''') \<and>
   tlsConfig example_world opts_ca_lone_key =
     tlsConfig example_world
       (opts_ca_lone_key\<lparr>TLS := (TLS opts_ca_lone_key)\<lparr>Cert := '''', Key := ''''\<rparr>\<rparr>) \<and>
   tlsConfig example_world opts_ca_lone_key =
     Inr (Some \<lparr>InsecureSkipVerify = False, RootCAs = Some [X509Certificate ''ca''],
                Certificates = []\<rparr>)"
  using tlsConfig_lone_cert_or_key_ignored [of opts_ca_lone_key example_world]
  by (simp add: tlsConfig_def opts_ca_lone_key_def example_defs)

text \<open>
  Claim C3 says that with a CA path \<^verbatim>\<open>tlsConfig\<close> fails when the file cannot be read or
  cannot be parsed as PEM. The second half fails: the code drops the flag that
  \<^verbatim>\<open>AppendCertsFromPEM\<close> returns. For a readable file that holds no certificate the result
  is a configuration with an empty root pool, and no error.
\<close>

theorem tlsConfig_ca_not_pem_no_error:
  "CA (TLS opts_ca_not_pem) \<noteq> '''' \<and>
   ioutil_ReadFile example_world (CA (TLS opts_ca_not_pem)) = Inr ''hello'' \<and>
   \<not> snd (x509_AppendCertsFromPEM example_world [] ''hello'') \<and>
   tlsConfig example_world opts_ca_not_pem =
     Inr (Some \<lparr>InsecureSkipVerify = False, RootCAs = Some [], Certificates = []\<rparr>)"
  by (simp add: tlsConfig_def opts_ca_not_pem_def example_defs)

text \<open>
  Claim C3 as amended: with a non-empty CA path, \<^verbatim>\<open>tlsConfig\<close> fails with the read error
  when the file cannot be read. When it can be read, the content is not checked: the
  certificates that \<^verbatim>\<open>AppendCertsFromPEM\<close> finds in it, none included, are added to a new
  empty pool, and that pool, not the nil pool that stands for the host's root set, is the
  \<^verbatim>\<open>RootCAs\<close> of the configuration returned; the only error then left is that of loading
  a client key pair.
\<close>

theorem tlsConfig_ca_path:
  assumes "CA (TLS opts) \<noteq> ''''"
  shows "(\<forall>err. ioutil_ReadFile w (CA (TLS opts)) = Inl err \<longrightarrow> tlsConfig w opts = Inl err) \<and>
         (\<forall>data. ioutil_ReadFile w (CA (TLS opts)) = Inr data \<longrightarrow>
            tlsConfig w opts =
              (let CA_Pool = fst (x509_AppendCertsFromPEM w [] data);
                   cfg = \<lparr>InsecureSkipVerify = SkipSSLVerify opts, RootCAs = Some CA_Pool,
                          Certificates = []\<rparr>
               in if Cert (TLS opts) \<noteq> '''' \<and> Key (TLS opts) \<noteq> ''''
                  then (case tls_LoadX509KeyPair w (Cert (TLS opts)) (Key (TLS opts)) of
                          Inl err \<Rightarrow> Inl err
                        | Inr x509Cert \<Rightarrow> Inr (Some (cfg\<lparr>Certificates := [x509Cert]\<rparr>)))
                  else Inr (Some cfg)))"
  using assms by (auto simp: tlsConfig_def Let_def split: sum.splits)

theorem tlsConfig_ca_path_witness:
  "CA (TLS opts_ca_missing) \<noteq> '''' \<and>
   ioutil_ReadFile example_world (CA (TLS opts_ca_missing)) =
     Inl (Error ''no such file or directory'') \<and>
   tlsConfig example_world opts_ca_missing = Inl (Error ''no such file or directory'') \<and>
   CA (TLS opts_mutual_tls) \<noteq> '''' \<and>
   ioutil_ReadFile example_world (CA (TLS opts_mutual_tls)) =
     Inr ''-----BEGIN CERTIFICATE-----'' \<and>
   tlsConfig example_world opts_mutual_tls =
     Inr (Some \<lparr>InsecureSkipVerify = False, RootCAs = Some [X509Certificate ''ca''],
                Certificates = [TLSCertificate ''client'']\<rparr>)"
proof -
  have a: "CA (TLS opts_ca_missing) \<noteq> ''''" and b: "CA (TLS opts_mutual_tls) \<noteq> ''''"
    by (simp_all add: opts_ca_missing_def opts_mutual_tls_def zero_Options_def)
  from tlsConfig_ca_path [OF a, of example_world] tlsConfig_ca_path [OF b, of example_world]
  show ?thesis
    by (simp add: opts_ca_missing_def opts_mutual_tls_def example_defs)
qed

text \<open>
  Claim C4: when the CA path, the certificate path and the key path are all empty and
  \<^verbatim>\<open>SkipSSLVerify\<close> is false, \<^verbatim>\<open>tlsConfig\<close> returns nil and no error, so that the
  transport of an \<open>https\<close> endpoint keeps the default TLS configuration.
\<close>

theorem tlsConfig_nothing_configured_nil:
  assumes "CA (TLS opts) = ''''" and "Cert (TLS opts) = ''''" and "Key (TLS opts) = ''''"
    and "\<not> SkipSSLVerify opts"
  shows "tlsConfig w opts = Inr None"
  using assms by (simp add: tlsConfig_def)

theorem tlsConfig_nothing_configured_nil_witness:
  "CA (TLS zero_Options) = '''' \<and> Cert (TLS zero_Options) = '''' \<and>
   Key (TLS zero_Options) = '''' \<and> \<not> SkipSSLVerify zero_Options \<and>
   tlsConfig example_world zero_Options = Inr None"
proof -
  have h: "CA (TLS zero_Options) = ''''" "Cert (TLS zero_Options) = ''''"
    "Key (TLS zero_Options) = ''''" "\<not> SkipSSLVerify zero_Options"
    by (simp_all add: zero_Options_def)
  from tlsConfig_nothing_configured_nil [OF h, of example_world] h show ?thesis by simp
qed

subsection \<open>Request\<close>




text \<open>
  Claim C6: the \<^verbatim>\<open>Response\<close> that \<^verbatim>\<open>Request\<close> returns, with a nil error or not, holds
  exactly the headers of the transported response whose lower-cased name is one of
  \<open>user-highest-id\<close>, \<open>user-lowest-id\<close>, \<open>group-highest-id\<close> and \<open>group-lowest-id\<close>,
  each under its own name with the first of its values; every other name is absent. The
  raw headers are a Go map, so their names are distinct.
\<close>

theorem Request_headers_allow_list:
  assumes "Request_send w h path query = Inr resp"
    and "distinct (map fst (resp_Header resp))"
    and "Request w h path query = Returns (Some r, e)"
  shows "Headers r = filtered_headers (resp_Header resp)"
proof -
  from assms(1,3) obtain m'
    where r: "Request_headers (resp_Header resp) Map.empty = Returns m'"
      and m': "Headers r = m'"
    by (auto simp: Request_def split: outcome.splits if_splits sum.splits)
  from Request_headers_returns [OF r assms(2)] m' show ?thesis by simp
qed

theorem Request_headers_allow_list_witness:
  "Request_send example_world example_client ''users/pyama'' '''' = Inr resp_pyama \<and>
   distinct (map fst (resp_Header resp_pyama)) \<and>
   Request example_world example_client ''users/pyama'' '''' =
     Returns (Some \<lparr>StatusCode = 200,
                    Headers = [''User-Highest-Id'' \<mapsto> ''2000'', ''Group-Lowest-Id'' \<mapsto> ''100''],
                    Body = ''{id:1001}''\<rparr>, None) \<and>
   filtered_headers (resp_Header resp_pyama) =
     [''User-Highest-Id'' \<mapsto> ''2000'', ''Group-Lowest-Id'' \<mapsto> ''100'']"
proof -
  let ?m = "[''User-Highest-Id'' \<mapsto> ''2000'', ''Group-Lowest-Id'' \<mapsto> ''100'']"
  let ?r = "\<lparr>StatusCode = 200, Headers = ?m, Body = ''{id:1001}''\<rparr>"
  have run: "Request example_world example_client ''users/pyama'' '''' = Returns (Some ?r, None)"
    by (simp add: Request_def send_pyama)
       (simp add: resp_pyama_def funk_ContainsString_def supportHeaders_def lower_examples)
  have d: "distinct (map fst (resp_Header resp_pyama))"
    by (simp add: resp_pyama_def)
  from Request_headers_allow_list [OF send_pyama d run] send_pyama d run
  show ?thesis by simp
qed

subsection \<open>newClient\<close>

text \<open>
  Claim C7: for an endpoint that begins with \<open>unix\<close>, when the endpoint parses as a URL
  (and \<^verbatim>\<open>env.Parse\<close> has not failed before) \<^verbatim>\<open>newClient\<close> returns a client whose stored
  endpoint is \<open>http://unix\<close> and whose transport dials the Unix socket at the path of that
  URL for every connection, whatever network and address it is asked for; when the endpoint
  does not parse, \<^verbatim>\<open>newClient\<close> returns an error, that of the parser unless \<^verbatim>\<open>env.Parse\<close>
  failed first.
\<close>

theorem newClient_unix_socket:
  assumes "strings_Index endpoint ''unix'' = 0"
  shows "(\<forall>u. url_Parse w endpoint = Inr u \<and> fst (env_Parse w opt0) = None \<longrightarrow>
            (\<exists>c tr. fst (newClient w endpoint opt0) = Inr c \<and>
               ApiEndpoint c = ''http://unix'' \<and>
               Transport (httpClient c) = PlainTransport tr \<and>
               (\<forall>network addr.
                  transport_dial tr network addr = NetDial None ''unix'' (Path u)))) \<and>
         (\<forall>err. url_Parse w endpoint = Inl err \<longrightarrow>
            fst (newClient w endpoint opt0) =
              Inl (case fst (env_Parse w opt0) of Some e \<Rightarrow> e | None \<Rightarrow> err))"
proof (cases "env_Parse w opt0")
  case (Pair e opt1)
  show ?thesis
  proof (cases e)
    case None
    with Pair show ?thesis
      by (simp add: newClient_def newClient_transport_unix [OF assms] Let_def
          transport_dial_def retryablehttp_StandardClient_def split: sum.splits)
  next
    case (Some err)
    with Pair show ?thesis by (simp add: newClient_def)
  qed
qed

theorem newClient_unix_socket_witness:
  "strings_Index ''unix:///var/run/stns.sock'' ''unix'' = 0 \<and>
   url_Parse example_world ''unix:///var/run/stns.sock'' =
     Inr \<lparr>Scheme = ''unix'', Host = '''', Path = ''/var/run/stns.sock'', RawQuery = ''''\<rparr> \<and>
   fst (env_Parse example_world zero_Options) = None \<and>
   (\<exists>c tr. fst (newClient example_world ''unix:///var/run/stns.sock'' zero_Options) = Inr c \<and>
      ApiEndpoint c = ''http://unix'' \<and>
      Transport (httpClient c) = PlainTransport tr \<and>
      (\<forall>network addr.
         transport_dial tr network addr = NetDial None ''unix'' ''/var/run/stns.sock'')) \<and>
   strings_Index ''unix://[::1'' ''unix'' = 0 \<and>
   url_Parse example_world ''unix://[::1'' = Inl (Error ''parse: invalid URL'') \<and>
   fst (newClient example_world ''unix://[::1'' zero_Options) =
     Inl (Error ''parse: invalid URL'')"
proof -
  have a: "strings_Index ''unix:///var/run/stns.sock'' ''unix'' = 0"
    and b: "strings_Index ''unix://[::1'' ''unix'' = 0"
    by (simp_all add: strings_Index_0)
  have p: "url_Parse example_world ''unix:///var/run/stns.sock'' =
      Inr \<lparr>Scheme = ''unix'', Host = '''', Path = ''/var/run/stns.sock'', RawQuery = ''''\<rparr>"
    and q: "url_Parse example_world ''unix://[::1'' = Inl (Error ''parse: invalid URL'')"
    and e: "fst (env_Parse example_world zero_Options) = None"
    by (simp_all add: example_world_def)
  from newClient_unix_socket [OF a, of example_world zero_Options]
    newClient_unix_socket [OF b, of example_world zero_Options] a b p q e
  show ?thesis by simp
qed

text \<open>
  Claim C9: in the \<^verbatim>\<open>Options\<close> of the client that \<^verbatim>\<open>newClient\<close> constructs, a user agent,
  timeout or retry count that is zero-valued at construction, that is, when \<^verbatim>\<open>env.Parse\<close>
  has filled the \<^verbatim>\<open>Options\<close> from the environment, has become \<open>libstns-go/0.0.1\<close>,
  15 or 3, and a non-zero value is kept as it is.
\<close>

theorem newClient_applies_defaults:
  assumes "env_Parse w opt0 = (None, opt1)"
    and "fst (newClient w endpoint opt0) = Inr c"
  shows "UserAgent (opt c) =
           (if UserAgent opt1 = '''' then ''libstns-go/0.0.1'' else UserAgent opt1) \<and>
         RequestTimeout (opt c) =
           (if RequestTimeout opt1 = 0 then 15 else RequestTimeout opt1) \<and>
         RequestRetry (opt c) = (if RequestRetry opt1 = 0 then 3 else RequestRetry opt1)"
  using newClient_Inr [OF assms(2)] newClient_snd [OF assms(1), of endpoint]
  by (simp add: newClient_defaults_eq with_defaults_def)

theorem newClient_applies_defaults_witness:
  "env_Parse example_world opts_custom = (None, opts_custom) \<and>
   fst (newClient example_world ''https://directory.example/v1/'' opts_custom) =
     Inr custom_client \<and>
   UserAgent opts_custom = ''my-agent'' \<and> RequestTimeout opts_custom = 0 \<and>
   RequestRetry opts_custom = 5 \<and>
   UserAgent (opt custom_client) = ''my-agent'' \<and>
   RequestTimeout (opt custom_client) = 15 \<and>
   RequestRetry (opt custom_client) = 5 \<and>
   env_Parse example_world zero_Options = (None, zero_Options) \<and>
   fst (newClient example_world ''https://directory.example/v1/'' zero_Options) =
     Inr example_client \<and>
   UserAgent (opt example_client) = ''libstns-go/0.0.1'' \<and>
   RequestTimeout (opt example_client) = 15 \<and>
   RequestRetry (opt example_client) = 3"
proof -
  have e: "env_Parse example_world opts_custom = (None, opts_custom)"
    and z: "env_Parse example_world zero_Options = (None, zero_Options)"
    by (simp_all add: example_world_def)
  have c: "fst (newClient example_world ''https://directory.example/v1/'' opts_custom) =
      Inr custom_client"
    and x: "fst (newClient example_world ''https://directory.example/v1/'' zero_Options) =
      Inr example_client"
    by (simp_all add: newClient_custom newClient_example)
  from newClient_applies_defaults [OF e c] newClient_applies_defaults [OF z x] e z c x
  show ?thesis by (simp add: opts_custom_def zero_Options_def)
qed

text \<open>
  Claim C10: \<^verbatim>\<open>newClient\<close> writes into the caller's \<^verbatim>\<open>Options\<close>. When it returns a client,
  \<^verbatim>\<open>env.Parse\<close> has succeeded, the caller's \<^verbatim>\<open>Options\<close> are those that \<^verbatim>\<open>env.Parse\<close> left
  with the three defaults filled in, the client's \<^verbatim>\<open>opt\<close> is that same object, and its
  user agent, timeout and retry count are all non-zero.
\<close>

theorem newClient_mutates_Options:
  assumes "fst (newClient w endpoint opt0) = Inr c"
  shows "fst (env_Parse w opt0) = None \<and>
         snd (newClient w endpoint opt0) = with_defaults (snd (env_Parse w opt0)) \<and>
         opt c = snd (newClient w endpoint opt0) \<and>
         UserAgent (snd (newClient w endpoint opt0)) \<noteq> '''' \<and>
         RequestTimeout (snd (newClient w endpoint opt0)) \<noteq> 0 \<and>
         RequestRetry (snd (newClient w endpoint opt0)) \<noteq> 0"
proof -
  from newClient_Inr [OF assms] have e: "fst (env_Parse w opt0) = None"
    and c: "opt c = snd (newClient w endpoint opt0)" by simp_all
  from e have "env_Parse w opt0 = (None, snd (env_Parse w opt0))"
    by (cases "env_Parse w opt0") simp
  from newClient_snd [OF this]
  have s: "snd (newClient w endpoint opt0) = with_defaults (snd (env_Parse w opt0))"
    by (simp add: newClient_defaults_eq)
  show ?thesis using e c s by (simp add: with_defaults_def)
qed

theorem newClient_mutates_Options_witness:
  "fst (newClient example_world ''https://directory.example/v1/'' zero_Options) =
     Inr example_client \<and>
   UserAgent zero_Options = '''' \<and> RequestTimeout zero_Options = 0 \<and>
   RequestRetry zero_Options = 0 \<and>
   snd (newClient example_world ''https://directory.example/v1/'' zero_Options) =
     zero_Options\<lparr>UserAgent := ''libstns-go/0.0.1'', RequestTimeout := 15,
                   RequestRetry := 3\<rparr> \<and>
   opt example_client =
     snd (newClient example_world ''https://directory.example/v1/'' zero_Options)"
proof -
  have x: "fst (newClient example_world ''https://directory.example/v1/'' zero_Options) =
      Inr example_client"
    by (simp add: newClient_example)
  from newClient_mutates_Options [OF x] x show ?thesis
    by (simp add: newClient_example) (simp add: zero_Options_def)
qed

end
